theory Spec2Isabelle
  imports Complex_Main
begin

section \<open>JavaScript numbers\<close>

text \<open>
  The hook \<open>useFaceLandmarkDetector\<close> of \<open>src/robot_ui/src/utils/useDetector.ts\<close>
  computes with JavaScript numbers. A number is modelled as a real value or one of the
  three special values that division and \<open>Math.min\<close>/\<open>Math.max\<close> can produce. Finite
  arithmetic is exact (rounding is not modelled) and the two zeros are identified, the
  zero being the positive one.
\<close>

datatype number = Val real | PosInfinity | NegInfinity | NaN

fun js_add :: "number \<Rightarrow> number \<Rightarrow> number" where
  "js_add NaN _ = NaN"
| "js_add _ NaN = NaN"
| "js_add PosInfinity NegInfinity = NaN"
| "js_add NegInfinity PosInfinity = NaN"
| "js_add PosInfinity _ = PosInfinity"
| "js_add _ PosInfinity = PosInfinity"
| "js_add NegInfinity _ = NegInfinity"
| "js_add _ NegInfinity = NegInfinity"
| "js_add (Val a) (Val b) = Val (a + b)"

fun js_neg :: "number \<Rightarrow> number" where
  "js_neg NaN = NaN"
| "js_neg PosInfinity = NegInfinity"
| "js_neg NegInfinity = PosInfinity"
| "js_neg (Val a) = Val (- a)"

definition js_sub :: "number \<Rightarrow> number \<Rightarrow> number" where
  "js_sub a b = js_add a (js_neg b)"

fun js_div :: "number \<Rightarrow> number \<Rightarrow> number" where
  "js_div NaN _ = NaN"
| "js_div _ NaN = NaN"
| "js_div (Val a) (Val b) =
     (if b = 0 then (if 0 < a then PosInfinity else if a < 0 then NegInfinity else NaN)
      else Val (a / b))"
| "js_div (Val a) _ = Val 0"
| "js_div PosInfinity (Val b) = (if 0 \<le> b then PosInfinity else NegInfinity)"
| "js_div NegInfinity (Val b) = (if 0 \<le> b then NegInfinity else PosInfinity)"
| "js_div _ _ = NaN"

fun Math_max :: "number \<Rightarrow> number \<Rightarrow> number" where
  "Math_max NaN _ = NaN"
| "Math_max _ NaN = NaN"
| "Math_max PosInfinity _ = PosInfinity"
| "Math_max _ PosInfinity = PosInfinity"
| "Math_max NegInfinity b = b"
| "Math_max a NegInfinity = a"
| "Math_max (Val a) (Val b) = Val (max a b)"

fun Math_min :: "number \<Rightarrow> number \<Rightarrow> number" where
  "Math_min NaN _ = NaN"
| "Math_min _ NaN = NaN"
| "Math_min NegInfinity _ = NegInfinity"
| "Math_min _ NegInfinity = NegInfinity"
| "Math_min PosInfinity b = b"
| "Math_min a PosInfinity = a"
| "Math_min (Val a) (Val b) = Val (min a b)"

section \<open>Data\<close>

text \<open>
  The result of the detector, as the hook reads it:
  \<open>results.faceBlendshapes[0].categories[key]\<close> has a \<open>categoryName\<close> and a \<open>score\<close>.
\<close>

record Category =
  categoryName :: string
  score :: number

record Classifications =
  categories :: "Category list"

record FaceLandmarkerResult =
  faceBlendshapes :: "Classifications list"

text \<open>
  The state of a video element: the hook reads \<open>currentTime\<close>; \<open>image\<close> stands for the
  pixels the detector looks at. \<open>currentTime\<close> is a finite number of seconds. The hook
  holds a video element by reference; the element itself lives in the document and plays
  on while the hook holds it.
\<close>

record HTMLVideoElement =
  currentTime :: real
  image :: nat

type_synonym element = nat

text \<open>The detector's \<open>detectForVideo\<close>, a black box from the video frame to a result.\<close>

type_synonym FaceLandmarker = "HTMLVideoElement \<Rightarrow> FaceLandmarkerResult"

datatype CalibrationStatus = NOT_READY | READY | DOING | DONE

text \<open>
  \<open>CalibrationMode\<close> is declared outside the source at hand; the hook compares the
  store's mode with \<open>NEUTRAL\<close> only, every other mode is the smile calibration.
\<close>

datatype CalibrationMode = NEUTRAL | SMILE

text \<open>
  An object read by property name is a map; \<open>hasOwnProperty\<close> and \<open>in\<close> are membership
  of the domain (blendshape category names are not names of \<open>Object.prototype\<close>).
  The calibration buffers are enumerated by \<open>for ... in\<close>, so they keep their keys in
  order, as an association list.
\<close>

type_synonym FaceLandmarkerBlendValues = "string \<rightharpoonup> number"

type_synonym DuringCalibrationBlendValues = "(string \<times> number list) list"

definition initialDuringCalibrationBlendValues :: DuringCalibrationBlendValues where
  "initialDuringCalibrationBlendValues =
     [(''mouthPressLeft'', []), (''mouthPressRight'', []),
      (''mouthSmileLeft'', []), (''mouthSmileRight'', [])]"

datatype callback = DoCalibration | PredictWebcam | StopCalibration

datatype error = TypeError

section \<open>The state of the hook\<close>

text \<open>
  What a function of the hook captures when a render creates it: the \<open>useState\<close> cells
  of lines 50 to 60 and the values selected from the calibration store on lines 64 to 66,
  as they are in that render. A function reads these variables from the render that
  created it, not from the hook as it is when the function runs.
\<close>

record render =
  faceLandmarker :: "FaceLandmarker option"
  isInitialized :: bool
  video :: "element option"
  webcamRunning :: bool
  webcamEnabled :: bool
  calibrationFrames :: nat
  predictionFrames :: nat
  calibrationStatus :: CalibrationStatus
  predictionStatus :: CalibrationStatus
  smileDegree :: number
  blendValuesFromCalibration :: FaceLandmarkerBlendValues
  smileBlendValuesFromCalibration :: FaceLandmarkerBlendValues
  calibrationStatusFromStore :: CalibrationMode

text \<open>
  The hook: the module-level variables of lines 39 to 47, which every function reads and
  writes as they are; \<open>cells\<close>, the present values of the cells and of the store, which
  the \<open>set...\<close> functions write and the next render hands to the functions it creates;
  \<open>firstRender\<close>, the render that created \<open>predictWebcam\<close>, whose \<open>useCallback\<close> has
  no dependency and so keeps that function for good; the constant \<open>initialBlendValues\<close>
  of the store module; the two refs; and the browser: the detector service, the webcam
  capability, the video elements of the document, the animation frames and timeouts
  that are pending, each with the function that was scheduled (a callback and the render
  that created it), and the console. \<open>detectForVideoCalls\<close> counts the calls of the
  detector.
\<close>

record hook =
  lastVideoTime :: real
  smileDegrees :: "number list"
  calibrationBlendValues :: DuringCalibrationBlendValues
  cells :: render
  firstRender :: render
  initialBlendValues :: FaceLandmarkerBlendValues
  calibrateRequestRef :: "nat option"
  predictRequestRef :: "nat option"
  faceLandmarkerService :: "FaceLandmarker option"
  mediaDevices :: bool
  document :: "element \<Rightarrow> HTMLVideoElement"
  animationFrames :: "(nat \<times> callback \<times> render) list"
  nextHandle :: nat
  timeouts :: "(nat \<times> callback \<times> render) list"
  console :: "string list"
  detectForVideoCalls :: nat

text \<open>The \<open>set...\<close> functions of the cells and of the store.\<close>

definition setFaceLandmarker :: "FaceLandmarker option \<Rightarrow> hook \<Rightarrow> hook" where
  "setFaceLandmarker v st = st\<lparr>cells := (cells st)\<lparr>faceLandmarker := v\<rparr>\<rparr>"

definition setIsInitialized :: "bool \<Rightarrow> hook \<Rightarrow> hook" where
  "setIsInitialized v st = st\<lparr>cells := (cells st)\<lparr>isInitialized := v\<rparr>\<rparr>"

definition setVideo :: "element option \<Rightarrow> hook \<Rightarrow> hook" where
  "setVideo v st = st\<lparr>cells := (cells st)\<lparr>video := v\<rparr>\<rparr>"

definition setWebcamRunning :: "bool \<Rightarrow> hook \<Rightarrow> hook" where
  "setWebcamRunning v st = st\<lparr>cells := (cells st)\<lparr>webcamRunning := v\<rparr>\<rparr>"

definition setWebcamEnabled :: "bool \<Rightarrow> hook \<Rightarrow> hook" where
  "setWebcamEnabled v st = st\<lparr>cells := (cells st)\<lparr>webcamEnabled := v\<rparr>\<rparr>"

definition setCalibrationFrames :: "nat \<Rightarrow> hook \<Rightarrow> hook" where
  "setCalibrationFrames v st = st\<lparr>cells := (cells st)\<lparr>calibrationFrames := v\<rparr>\<rparr>"

definition setCalibrationStatus :: "CalibrationStatus \<Rightarrow> hook \<Rightarrow> hook" where
  "setCalibrationStatus v st = st\<lparr>cells := (cells st)\<lparr>calibrationStatus := v\<rparr>\<rparr>"

definition setPredictionStatus :: "CalibrationStatus \<Rightarrow> hook \<Rightarrow> hook" where
  "setPredictionStatus v st = st\<lparr>cells := (cells st)\<lparr>predictionStatus := v\<rparr>\<rparr>"

definition setSmileDegree :: "number \<Rightarrow> hook \<Rightarrow> hook" where
  "setSmileDegree v st = st\<lparr>cells := (cells st)\<lparr>smileDegree := v\<rparr>\<rparr>"

definition setBlendValuesFromCalibration :: "FaceLandmarkerBlendValues \<Rightarrow> hook \<Rightarrow> hook" where
  "setBlendValuesFromCalibration v st =
     st\<lparr>cells := (cells st)\<lparr>blendValuesFromCalibration := v\<rparr>\<rparr>"

definition setSmileBlendValuesFromCalibration :: "FaceLandmarkerBlendValues \<Rightarrow> hook \<Rightarrow> hook"
  where
  "setSmileBlendValuesFromCalibration v st =
     st\<lparr>cells := (cells st)\<lparr>smileBlendValuesFromCalibration := v\<rparr>\<rparr>"

section \<open>The browser\<close>

text \<open>
  \<open>console.log\<close>: the console keeps the message, the string that is the first argument
  of the call; the call of line 240, which logs the result object alone, is left out.
\<close>

definition console_log :: "string \<Rightarrow> hook \<Rightarrow> hook" where
  "console_log msg st = st\<lparr>console := console st @ [msg]\<rparr>"

text \<open>
  \<open>requestAnimationFrame\<close> and \<open>setTimeout\<close> keep the function they are given: the
  callback and the render that created it.
\<close>

definition requestAnimationFrame :: "callback \<Rightarrow> render \<Rightarrow> hook \<Rightarrow> nat \<times> hook" where
  "requestAnimationFrame cb r st =
     (nextHandle st,
      st\<lparr>animationFrames := animationFrames st @ [(nextHandle st, cb, r)],
         nextHandle := nextHandle st + 1\<rparr>)"

definition cancelAnimationFrame :: "nat \<Rightarrow> hook \<Rightarrow> hook" where
  "cancelAnimationFrame h st =
     st\<lparr>animationFrames := filter (\<lambda>(i, cb, r). i \<noteq> h) (animationFrames st)\<rparr>"

definition setTimeout :: "callback \<Rightarrow> render \<Rightarrow> nat \<Rightarrow> hook \<Rightarrow> hook" where
  "setTimeout cb r ms st = st\<lparr>timeouts := timeouts st @ [(ms, cb, r)]\<rparr>"

text \<open>Reading a property for arithmetic: a missing property is \<open>undefined\<close>, hence NaN.\<close>

definition property :: "FaceLandmarkerBlendValues \<Rightarrow> string \<Rightarrow> number" where
  "property obj k = (case obj k of None \<Rightarrow> NaN | Some v \<Rightarrow> v)"

section \<open>Initialisation\<close>

definition isWebcamIsEnabled :: "hook \<Rightarrow> bool" where
  "isWebcamIsEnabled st = mediaDevices st"

definition initFacelandmarks :: "hook \<Rightarrow> hook" where
  "initFacelandmarks st =
     (let landmarker = faceLandmarkerService st;
          st1 = setFaceLandmarker landmarker st;
          st2 = setIsInitialized True st1
      in if isWebcamIsEnabled st2
         then setWebcamEnabled True (setWebcamRunning True
                (setPredictionStatus READY (setCalibrationStatus READY st2)))
         else st2)"

section \<open>Calibration\<close>

text \<open>
  Lines 98 to 102 and 236 to 239: the detector runs only when the video's time differs
  from the time of the last frame seen.
\<close>

definition detect :: "FaceLandmarker \<Rightarrow> HTMLVideoElement \<Rightarrow> hook
    \<Rightarrow> FaceLandmarkerResult option \<times> hook" where
  "detect landmarker v st =
     (if lastVideoTime st \<noteq> currentTime v
      then (Some (landmarker v),
            st\<lparr>lastVideoTime := currentTime v,
               detectForVideoCalls := detectForVideoCalls st + 1\<rparr>)
      else (None, st))"

text \<open>\<open>calibrationBlendValues[blendName].push(blendScore)\<close> under \<open>hasOwnProperty\<close>.\<close>

fun push :: "string \<Rightarrow> number \<Rightarrow> DuringCalibrationBlendValues
    \<Rightarrow> DuringCalibrationBlendValues" where
  "push blendName blendScore [] = []"
| "push blendName blendScore ((key, values) # rest) =
     (if key = blendName then (key, values @ [blendScore]) # rest
      else (key, values) # push blendName blendScore rest)"

definition addSample :: "DuringCalibrationBlendValues \<Rightarrow> Category
    \<Rightarrow> DuringCalibrationBlendValues" where
  "addSample buffers c = push (categoryName c) (score c) buffers"

text \<open>
  \<open>doCalibration\<close>, lines 91 to 122, as created by the render \<open>r\<close>: \<open>video\<close>,
  \<open>calibrationFrames\<close> and \<open>calibrationStatus\<close> are those of \<open>r\<close>, and the function
  it schedules is itself.
\<close>

definition doCalibration :: "render \<Rightarrow> hook \<Rightarrow> hook" where
  "doCalibration r st =
     (case (faceLandmarkerService st, video r) of
        (Some landmarker, Some v) \<Rightarrow>
          (case detect landmarker (document st v) st of
             (None, st1) \<Rightarrow> st1
           | (Some results, st1) \<Rightarrow>
               (case faceBlendshapes results of
                  [] \<Rightarrow> st1
                | first # _ \<Rightarrow>
                    (let st2 = st1\<lparr>calibrationBlendValues :=
                                 foldl addSample (calibrationBlendValues st1) (categories first)\<rparr>;
                         st3 = setCalibrationFrames (calibrationFrames r + 1) st2
                     in if calibrationStatus r = DOING
                        then (case requestAnimationFrame DoCalibration r st3 of
                                (h, st4) \<Rightarrow> st4\<lparr>calibrateRequestRef := Some h\<rparr>)
                        else st3)))
      | _ \<Rightarrow> st)"

text \<open>\<open>values.reduce((acc, num) => acc + num, 0) / values.length\<close>\<close>

definition average :: "number list \<Rightarrow> number" where
  "average values =
     js_div (foldl (\<lambda>acc num. js_add acc num) (Val 0) values) (Val (real (length values)))"

text \<open>The body of the loop of \<open>storeCalibrations\<close>, lines 131 to 134.\<close>

fun assignAverage :: "FaceLandmarkerBlendValues \<Rightarrow> string \<times> number list
    \<Rightarrow> FaceLandmarkerBlendValues" where
  "assignAverage tmpBlendValues (key, values) = tmpBlendValues(key \<mapsto> average values)"

definition storeCalibrations :: "render \<Rightarrow> hook \<Rightarrow> hook" where
  "storeCalibrations r st =
     (let st1 = console_log ''storeCalibrations'' st;
          tmpBlendValues =
            foldl assignAverage (initialBlendValues st1) (calibrationBlendValues st1)
      in if calibrationStatusFromStore r = NEUTRAL
         then setBlendValuesFromCalibration tmpBlendValues st1
         else setSmileBlendValuesFromCalibration tmpBlendValues st1)"

definition stopCalibration :: "render \<Rightarrow> hook \<Rightarrow> hook" where
  "stopCalibration r st =
     (let st1 = console_log ''stopCalibration'' st;
          st2 = setCalibrationStatus DONE st1;
          st3 = storeCalibrations r st2
      in setVideo None st3)"

text \<open>
  \<open>startCalibration\<close>, lines 158 to 174; the \<open>stopCalibration\<close> it hands to
  \<open>setTimeout\<close> is the one of its own render.
\<close>

definition startCalibration :: "render \<Rightarrow> hook \<Rightarrow> hook" where
  "startCalibration r st =
     (let st1 = console_log ''startCalibration'' st
      in case video r of
           None \<Rightarrow> console_log ''Wait! video not loaded yet.'' st1
         | Some v \<Rightarrow>
             (let st2 = st1\<lparr>calibrationBlendValues := initialDuringCalibrationBlendValues\<rparr>;
                  st3 = setCalibrationFrames 0 st2;
                  st4 = setCalibrationStatus DOING st3
              in setTimeout StopCalibration r 2000 st4))"

section \<open>Prediction\<close>

definition initialBlendFactors :: FaceLandmarkerBlendValues where
  "initialBlendFactors =
     [''mouthPressLeft'' \<mapsto> Val 0, ''mouthPressRight'' \<mapsto> Val 0,
      ''mouthSmileLeft'' \<mapsto> Val 0, ''mouthSmileRight'' \<mapsto> Val 0]"

text \<open>The body of the loop of \<open>updateBlendValues\<close>, lines 187 to 194.\<close>

definition addBlendFactor :: "render \<Rightarrow> FaceLandmarkerBlendValues \<Rightarrow> Category
    \<Rightarrow> FaceLandmarkerBlendValues" where
  "addBlendFactor r blendFactors c =
     (let blendName = categoryName c; blendScore = score c
      in case (blendFactors blendName, blendValuesFromCalibration r blendName) of
           (Some factor, Some baseline) \<Rightarrow>
             blendFactors(blendName \<mapsto>
               js_add factor
                 (js_div blendScore
                    (js_sub (property (smileBlendValuesFromCalibration r) blendName)
                            (property (blendValuesFromCalibration r) blendName))))
         | _ \<Rightarrow> blendFactors)"

definition calculateMood :: "render \<Rightarrow> FaceLandmarkerBlendValues \<Rightarrow> hook \<Rightarrow> hook" where
  "calculateMood r blendValues st =
     (let st1 = console_log ''calculateMood'' st;
          tmpSmileDegree =
            js_div (js_add (property blendValues ''mouthSmileLeft'')
                           (property blendValues ''mouthSmileRight'')) (Val 200);
          tmpSmileDegree = Math_min (Val 1) (Math_max (Val 0) (smileDegree r));
          st2 = st1\<lparr>smileDegrees := smileDegrees st1 @ [tmpSmileDegree]\<rparr>;
          st3 = console_log ''set smile degree'' st2
      in setSmileDegree tmpSmileDegree st3)"

text \<open>
  \<open>faceBlendshapes[0].categories\<close> of an empty array is a \<open>TypeError\<close>; the caller
  \<open>predictWebcam\<close> checks the length first.
\<close>

definition updateBlendValues :: "render \<Rightarrow> Classifications list \<Rightarrow> hook \<Rightarrow> error + hook"
  where
  "updateBlendValues r blendshapes st =
     (let st1 = console_log ''updateBlendValues'' st
      in case blendshapes of
           [] \<Rightarrow> Inl TypeError
         | first # _ \<Rightarrow>
             Inr (calculateMood r
                    (foldl (addBlendFactor r) initialBlendFactors (categories first)) st1))"

definition startPrediction :: "hook \<Rightarrow> hook" where
  "startPrediction st =
     (let st1 = console_log ''startPrediction'' st;
          st2 = setPredictionStatus DOING st1
      in st2\<lparr>smileDegrees := []\<rparr>)"

text \<open>\<open>stopPrediction\<close> returns a number, or \<open>undefined\<close> (here \<open>None\<close>).\<close>

definition stopPrediction :: "render \<Rightarrow> hook \<Rightarrow> number option \<times> hook" where
  "stopPrediction r st =
     (let st1 = console_log ''endPrediction'' st
      in if faceLandmarker r = None \<or> video r = None then (None, st1)
         else
           (let predictedSmileDegree = average (smileDegrees st1);
                st2 = console_log ''final average smile degree predicted'' st1;
                st3 = setCalibrationStatus DONE st2
            in (Some predictedSmileDegree, st3)))"

text \<open>
  \<open>predictWebcam\<close>, lines 230 to 247, as created by the render \<open>r\<close>: \<open>video\<close> is that
  of \<open>r\<close>, \<open>updateBlendValues\<close> is the one of \<open>r\<close>, and the function it schedules is
  itself. In the hook \<open>r\<close> is always the first render, see \<open>predictionEffect\<close> below.
\<close>

definition predictWebcam :: "render \<Rightarrow> hook \<Rightarrow> error + hook" where
  "predictWebcam r st =
     (let st1 = console_log ''predictWebcam'' st
      in case (faceLandmarkerService st1, video r) of
           (Some landmarker, Some v) \<Rightarrow>
             (case detect landmarker (document st1 v) st1 of
                (results, st2) \<Rightarrow>
                  (case (case results of
                           None \<Rightarrow> Inr st2
                         | Some res \<Rightarrow>
                             if length (faceBlendshapes res) > 0
                             then updateBlendValues r (faceBlendshapes res) st2
                             else Inr st2) of
                     Inl e \<Rightarrow> Inl e
                   | Inr st3 \<Rightarrow>
                       (case requestAnimationFrame PredictWebcam r st3 of
                          (h, st4) \<Rightarrow> Inr (st4\<lparr>predictRequestRef := Some h\<rparr>))))
         | _ \<Rightarrow> Inr st1)"

section \<open>Effects\<close>

text \<open>
  The three \<open>useEffect\<close> bodies, lines 268 to 290, and the cleanup of the third, run
  for the render \<open>r\<close>. The \<open>doCalibration\<close> of a render reads what that render has,
  since every variable it reads is a dependency of its \<open>useCallback\<close>; the
  \<open>predictWebcam\<close> of every render is the function the first render created.
\<close>

definition calibrationEffect :: "render \<Rightarrow> hook \<Rightarrow> hook" where
  "calibrationEffect r st =
     (if calibrationStatus r = DOING
      then (case requestAnimationFrame DoCalibration r st of
              (h, st1) \<Rightarrow> st1\<lparr>calibrateRequestRef := Some h\<rparr>)
      else st)"

definition predictionEffect :: "render \<Rightarrow> hook \<Rightarrow> hook" where
  "predictionEffect r st =
     (if predictionStatus r = DOING
      then (case requestAnimationFrame PredictWebcam (firstRender st) st of
              (h, st1) \<Rightarrow> st1\<lparr>predictRequestRef := Some h\<rparr>)
      else st)"

definition videoEffect :: "render \<Rightarrow> hook \<Rightarrow> hook" where
  "videoEffect r st = (if video r = None then st else initFacelandmarks st)"

text \<open>\<open>ref.current && cancelAnimationFrame(ref.current)\<close>: zero and undefined are falsy.\<close>

definition cancelRef :: "nat option \<Rightarrow> hook \<Rightarrow> hook" where
  "cancelRef ref st =
     (case ref of None \<Rightarrow> st | Some h \<Rightarrow> if h = 0 then st else cancelAnimationFrame h st)"

definition cleanup :: "hook \<Rightarrow> hook" where
  "cleanup st =
     (let st1 = cancelRef (calibrateRequestRef st) st
      in cancelRef (predictRequestRef st1) st1)"

definition setVideoNode :: "element \<Rightarrow> hook \<Rightarrow> hook" where
  "setVideoNode v st = setVideo (Some v) st"

section \<open>Running the hook\<close>

text \<open>
  The hook as it is mounted for the first time: the module-level variables and the cells
  have the initial values of lines 39 to 60; the detector service, the webcam capability
  and the contents of the calibration store are what the hook finds; every video element
  is at time 0.
\<close>

definition initialRender :: "FaceLandmarkerBlendValues \<Rightarrow> FaceLandmarkerBlendValues
    \<Rightarrow> CalibrationMode \<Rightarrow> render" where
  "initialRender baseline smile mode =
     \<lparr>faceLandmarker = None, isInitialized = False, video = None,
      webcamRunning = False, webcamEnabled = False,
      calibrationFrames = 0, predictionFrames = 0,
      calibrationStatus = NOT_READY, predictionStatus = NOT_READY,
      smileDegree = Val 0,
      blendValuesFromCalibration = baseline,
      smileBlendValuesFromCalibration = smile, calibrationStatusFromStore = mode\<rparr>"

definition mount :: "FaceLandmarker option \<Rightarrow> bool \<Rightarrow> FaceLandmarkerBlendValues
    \<Rightarrow> FaceLandmarkerBlendValues \<Rightarrow> FaceLandmarkerBlendValues \<Rightarrow> CalibrationMode \<Rightarrow> hook"
  where
  "mount service devices initial baseline smile mode =
     \<lparr>lastVideoTime = - 1, smileDegrees = [],
      calibrationBlendValues = initialDuringCalibrationBlendValues,
      cells = initialRender baseline smile mode,
      firstRender = initialRender baseline smile mode,
      initialBlendValues = initial,
      calibrateRequestRef = None, predictRequestRef = None,
      faceLandmarkerService = service, mediaDevices = devices,
      document = (\<lambda>v. \<lparr>currentTime = 0, image = 0\<rparr>),
      animationFrames = [], nextHandle = 1, timeouts = [], console = [],
      detectForVideoCalls = 0\<rparr>"

text \<open>
  The browser runs a scheduled function: the callback, with the variables of the render
  that created it. \<open>predictWebcam\<close> is the only one that could raise; an exception
  that escapes a callback ends that callback.
\<close>

fun invoke :: "callback \<Rightarrow> render \<Rightarrow> hook \<Rightarrow> hook" where
  "invoke DoCalibration r st = doCalibration r st"
| "invoke PredictWebcam r st = (case predictWebcam r st of Inr st' \<Rightarrow> st' | Inl e \<Rightarrow> st)"
| "invoke StopCalibration r st = stopCalibration r st"

text \<open>
  A sequence of scheduler ticks: each tick runs a scheduled function, whatever render
  created it.
\<close>

fun ticks :: "hook \<Rightarrow> (callback \<times> render) list \<Rightarrow> hook" where
  "ticks st [] = st"
| "ticks st ((cb, r) # rest) = ticks (invoke cb r st) rest"

text \<open>
  An animation frame: the browser takes the functions that are pending and runs them in
  order; what they schedule waits for the next frame. A timeout: the oldest one fires.
\<close>

fun runScheduled :: "hook \<Rightarrow> nat \<times> callback \<times> render \<Rightarrow> hook" where
  "runScheduled st (h, cb, r) = invoke cb r st"

definition animationFrame :: "hook \<Rightarrow> hook" where
  "animationFrame st = foldl runScheduled (st\<lparr>animationFrames := []\<rparr>) (animationFrames st)"

definition timeout :: "hook \<Rightarrow> hook" where
  "timeout st =
     (case timeouts st of
        [] \<Rightarrow> st
      | scheduled # rest \<Rightarrow> runScheduled (st\<lparr>timeouts := rest\<rparr>) scheduled)"

text \<open>
  Everything that can happen to a mounted hook: a call of one of the functions it
  returns and an effect, both of the present render; the cleanup; an animation frame and
  a timeout; a video element playing on; and a change of the calibration store or of the
  detector service from outside.
\<close>

datatype event =
    Call_startCalibration
  | Call_stopCalibration
  | Call_startPrediction
  | Call_stopPrediction
  | Call_setVideoNode element
  | AnimationFrame
  | Timeout
  | Effect_calibration
  | Effect_prediction
  | Effect_video
  | Effect_cleanup
  | Playback element HTMLVideoElement
  | Store FaceLandmarkerBlendValues FaceLandmarkerBlendValues CalibrationMode
  | Service "FaceLandmarker option"

fun step :: "hook \<Rightarrow> event \<Rightarrow> hook" where
  "step st Call_startCalibration = startCalibration (cells st) st"
| "step st Call_stopCalibration = stopCalibration (cells st) st"
| "step st Call_startPrediction = startPrediction st"
| "step st Call_stopPrediction = snd (stopPrediction (cells st) st)"
| "step st (Call_setVideoNode v) = setVideoNode v st"
| "step st AnimationFrame = animationFrame st"
| "step st Timeout = timeout st"
| "step st Effect_calibration = calibrationEffect (cells st) st"
| "step st Effect_prediction = predictionEffect (cells st) st"
| "step st Effect_video = videoEffect (cells st) st"
| "step st Effect_cleanup = cleanup st"
| "step st (Playback v playing) = st\<lparr>document := (document st)(v := playing)\<rparr>"
| "step st (Store baseline smile mode) =
     st\<lparr>cells := (cells st)\<lparr>blendValuesFromCalibration := baseline,
                            smileBlendValuesFromCalibration := smile,
                            calibrationStatusFromStore := mode\<rparr>\<rparr>"
| "step st (Service service) = st\<lparr>faceLandmarkerService := service\<rparr>"

definition run :: "hook \<Rightarrow> event list \<Rightarrow> hook" where
  "run st events = foldl step st events"

section \<open>Notions the properties are stated with\<close>

text \<open>
  The profile that \<open>storeCalibrations\<close> has set: the one of the store's mode, as the
  function's render has it.
\<close>

definition storedProfile :: "render \<Rightarrow> hook \<Rightarrow> FaceLandmarkerBlendValues" where
  "storedProfile r st =
     (if calibrationStatusFromStore r = NEUTRAL then blendValuesFromCalibration (cells st)
      else smileBlendValuesFromCalibration (cells st))"

text \<open>A number of the interval from 0 to 1; the special values are not.\<close>

definition inUnitInterval :: "number \<Rightarrow> bool" where
  "inUnitInterval x = (case x of Val q \<Rightarrow> 0 \<le> q \<and> q \<le> 1 | _ \<Rightarrow> False)"


text \<open>The scores a frame gives to one category name, in the order of the frame.\<close>

definition scoresOf :: "string \<Rightarrow> Category list \<Rightarrow> number list" where
  "scoresOf blendName cats = map score (filter (\<lambda>c. categoryName c = blendName) cats)"

text \<open>
  The blend factors of a frame, as the loop of \<open>updateBlendValues\<close> computes them, and
  the smile degree as the specification defines it from them:
  \<open>clamp01((mouthSmileLeft + mouthSmileRight) / 200)\<close>.
\<close>

definition blendFactorsOf :: "render \<Rightarrow> Category list \<Rightarrow> FaceLandmarkerBlendValues" where
  "blendFactorsOf r cats = foldl (addBlendFactor r) initialBlendFactors cats"

definition spec_smileDegree :: "render \<Rightarrow> Category list \<Rightarrow> number" where
  "spec_smileDegree r cats =
     Math_min (Val 1) (Math_max (Val 0)
       (js_div (js_add (property (blendFactorsOf r cats) ''mouthSmileLeft'')
                       (property (blendFactorsOf r cats) ''mouthSmileRight'')) (Val 200)))"

text \<open>The callbacks that are pending, without the renders that created them.\<close>

definition pending :: "(nat \<times> callback \<times> render) list \<Rightarrow> (nat \<times> callback) list" where
  "pending scheduled = map (\<lambda>(n, cb, r). (n, cb)) scheduled"

section \<open>Example states\<close>

definition neutralProfile :: FaceLandmarkerBlendValues where
  "neutralProfile =
     [''mouthPressLeft'' \<mapsto> Val 0, ''mouthPressRight'' \<mapsto> Val 0,
      ''mouthSmileLeft'' \<mapsto> Val (1 / 4), ''mouthSmileRight'' \<mapsto> Val (1 / 4)]"

definition smileProfile :: FaceLandmarkerBlendValues where
  "smileProfile =
     [''mouthPressLeft'' \<mapsto> Val 0, ''mouthPressRight'' \<mapsto> Val 0,
      ''mouthSmileLeft'' \<mapsto> Val (3 / 4), ''mouthSmileRight'' \<mapsto> Val (3 / 4)]"

definition smilingFrame :: "Category list" where
  "smilingFrame =
     [\<lparr>categoryName = ''mouthSmileLeft'', score = Val (1 / 2)\<rparr>,
      \<lparr>categoryName = ''mouthSmileRight'', score = Val (1 / 2)\<rparr>]"

definition pressingFrame :: "Category list" where
  "pressingFrame =
     [\<lparr>categoryName = ''mouthPressLeft'', score = Val (1 / 8)\<rparr>,
      \<lparr>categoryName = ''mouthSmileLeft'', score = Val (1 / 2)\<rparr>,
      \<lparr>categoryName = ''browDownLeft'', score = Val (1 / 8)\<rparr>,
      \<lparr>categoryName = ''mouthSmileRight'', score = Val (1 / 2)\<rparr>]"

text \<open>A frame with malformed scores: negative, above 1, infinite and NaN.\<close>

definition malformedFrame :: "Category list" where
  "malformedFrame =
     [\<lparr>categoryName = ''mouthSmileLeft'', score = Val (- 3)\<rparr>,
      \<lparr>categoryName = ''mouthSmileRight'', score = Val 7\<rparr>,
      \<lparr>categoryName = ''mouthPressLeft'', score = PosInfinity\<rparr>,
      \<lparr>categoryName = ''mouthSmileLeft'', score = NaN\<rparr>]"

definition smilingFace :: FaceLandmarker where
  "smilingFace v = \<lparr>faceBlendshapes = [\<lparr>categories = smilingFrame\<rparr>]\<rparr>"

text \<open>
  A render after both calibrations, with the detector and the video element 0, and a
  hook whose cells are those of this render.
\<close>

definition calibratedRender :: render where
  "calibratedRender =
     \<lparr>faceLandmarker = Some smilingFace, isInitialized = True, video = Some 0,
      webcamRunning = True, webcamEnabled = True,
      calibrationFrames = 0, predictionFrames = 0,
      calibrationStatus = READY, predictionStatus = READY,
      smileDegree = Val 0,
      blendValuesFromCalibration = neutralProfile,
      smileBlendValuesFromCalibration = smileProfile,
      calibrationStatusFromStore = NEUTRAL\<rparr>"

definition calibrated :: hook where
  "calibrated =
     (mount (Some smilingFace) True neutralProfile neutralProfile smileProfile NEUTRAL)
       \<lparr>cells := calibratedRender\<rparr>"

text \<open>A calibration with no sample for one category and two samples for another.\<close>

definition halfCalibrated :: hook where
  "halfCalibrated =
     calibrated\<lparr>calibrationBlendValues :=
       [(''mouthPressLeft'', []), (''mouthSmileLeft'', [Val (1 / 4), Val (3 / 4)])]\<rparr>"

text \<open>The hook as mounted with a detector that sees a smiling face.\<close>

definition mounted :: hook where
  "mounted = mount (Some smilingFace) True neutralProfile neutralProfile smileProfile NEUTRAL"

text \<open>
  A calibration under way: a video is attached, the calibration is started, its effect
  has run and one animation frame has passed.
\<close>

definition sampling :: hook where
  "sampling =
     run mounted
       [Call_setVideoNode 0, Effect_video, Call_startCalibration, Effect_calibration,
        AnimationFrame]"

text \<open>
  A prediction under way: a video is attached, the prediction is started, its effect
  has run and one animation frame has passed.
\<close>

definition predicting :: hook where
  "predicting =
     run mounted
       [Call_setVideoNode 0, Effect_video, Call_startPrediction, Effect_prediction,
        AnimationFrame]"

text \<open>
  A calibration under way during which \<open>stopPrediction\<close> is called, and the animation
  frame that follows.
\<close>

definition stoppedWhileSampling :: hook where
  "stoppedWhileSampling =
     run mounted
       [Call_setVideoNode 0, Effect_video, Call_startCalibration, Effect_calibration,
        Call_stopPrediction, Effect_calibration]"


section \<open>Notions the proofs use\<close>

text \<open>
  What one score does to the blend factor of its own category, the body of the loop
  of \<open>updateBlendValues\<close> seen from one property of \<open>blendFactors\<close>.
\<close>

fun factorAfter :: "render \<Rightarrow> string \<Rightarrow> number option \<Rightarrow> number \<Rightarrow> number option" where
  "factorAfter r blendName None blendScore = None"
| "factorAfter r blendName (Some factor) blendScore =
     (case blendValuesFromCalibration r blendName of
        None \<Rightarrow> Some factor
      | Some baseline \<Rightarrow>
          Some (js_add factor
                 (js_div blendScore
                    (js_sub (property (smileBlendValuesFromCalibration r) blendName)
                            (property (blendValuesFromCalibration r) blendName)))))"

text \<open>
  A \<open>predictWebcam\<close> that is scheduled has no video, and only \<open>stopCalibration\<close> is
  ever given to \<open>setTimeout\<close>.
\<close>

fun withoutVideo :: "nat \<times> callback \<times> render \<Rightarrow> bool" where
  "withoutVideo (n, cb, r) = (cb = PredictWebcam \<longrightarrow> video r = None)"

fun stopsCalibration :: "nat \<times> callback \<times> render \<Rightarrow> bool" where
  "stopsCalibration (n, cb, r) = (cb = StopCalibration)"

text \<open>
  The prediction never gets to a frame: the first render has no video, no scheduled
  \<open>predictWebcam\<close> has one, no sample was collected, the smile degree is 0 and
  \<open>updateBlendValues\<close> has not been entered (it would have logged its name).
\<close>

definition neverPredicts :: "hook \<Rightarrow> bool" where
  "neverPredicts st =
     (video (firstRender st) = None \<and>
      list_all withoutVideo (animationFrames st) \<and>
      list_all stopsCalibration (timeouts st) \<and>
      smileDegrees st = [] \<and>
      smileDegree (cells st) = Val 0 \<and>
      ''updateBlendValues'' \<notin> set (console st))"

section \<open>Unfolding the definitions\<close>

lemmas hook_defs =
  setFaceLandmarker_def setIsInitialized_def setVideo_def setWebcamRunning_def
  setWebcamEnabled_def setCalibrationFrames_def setCalibrationStatus_def
  setPredictionStatus_def setSmileDegree_def setBlendValuesFromCalibration_def
  setSmileBlendValuesFromCalibration_def console_log_def requestAnimationFrame_def
  cancelAnimationFrame_def setTimeout_def isWebcamIsEnabled_def initFacelandmarks_def
  detect_def doCalibration_def storeCalibrations_def stopCalibration_def
  startCalibration_def calculateMood_def updateBlendValues_def startPrediction_def
  stopPrediction_def predictWebcam_def calibrationEffect_def predictionEffect_def
  videoEffect_def cancelRef_def cleanup_def setVideoNode_def Let_def

lemmas example_defs =
  mounted_def mount_def initialRender_def calibrated_def calibratedRender_def
  smilingFace_def smilingFrame_def run_def animationFrame_def timeout_def

section \<open>Averages\<close>

lemma foldl_js_add_Val:
  "foldl (\<lambda>acc num. js_add acc num) (Val a) (map Val qs) = Val (a + sum_list qs)"
  by (induction qs arbitrary: a) (simp_all add: add.assoc)

lemma average_Val:
  "qs \<noteq> [] \<Longrightarrow> average (map Val qs) = Val (sum_list qs / real (length qs))"
  by (simp add: average_def foldl_js_add_Val)

lemma average_Nil: "average [] = NaN"
  by (simp add: average_def)

lemma assignAverage_other:
  "key \<notin> fst ` set buffers \<Longrightarrow> foldl assignAverage tmp buffers key = tmp key"
  by (induction buffers arbitrary: tmp) auto

lemma assignAverage_key:
  "distinct (map fst buffers) \<Longrightarrow> (key, values) \<in> set buffers \<Longrightarrow>
   foldl assignAverage tmp buffers key = Some (average values)"
proof (induction buffers arbitrary: tmp)
  case Nil
  then show ?case by simp
next
  case (Cons b buffers)
  obtain k vs where b: "b = (k, vs)" by (cases b)
  show ?case
  proof (cases "(key, values) = b")
    case True
    with Cons.prems b have "key \<notin> fst ` set buffers" by auto
    with True b show ?thesis by (simp add: assignAverage_other)
  next
    case False
    with Cons.prems have "(key, values) \<in> set buffers" "distinct (map fst buffers)" by auto
    with Cons.IH show ?thesis by simp
  qed
qed

lemma storeCalibrations_profile:
  "storedProfile r (storeCalibrations r st) =
     foldl assignAverage (initialBlendValues st) (calibrationBlendValues st)"
  by (simp add: storedProfile_def hook_defs)

section \<open>Calibration finalization\<close>

text \<open>
  C3, as the code has it. For every category of the calibration buffers (an object: its
  keys are distinct), \<open>storeCalibrations\<close> stores in the profile of the store's mode the
  arithmetic mean of the category's samples when there is at least one sample; when there
  is none it stores NaN, the quotient of 0 by 0, not zero.
\<close>

theorem storeCalibrations_mean:
  assumes "distinct (map fst (calibrationBlendValues st))"
    and "(key, values) \<in> set (calibrationBlendValues st)"
  shows "(values = [] \<longrightarrow> storedProfile r (storeCalibrations r st) key = Some NaN) \<and>
         (values = map Val qs \<and> qs \<noteq> [] \<longrightarrow>
            storedProfile r (storeCalibrations r st) key
              = Some (Val (sum_list qs / real (length qs))))"
  using assignAverage_key [OF assms]
  by (auto simp: storeCalibrations_profile average_Nil average_Val)

theorem storeCalibrations_mean_witness:
  "storedProfile calibratedRender (storeCalibrations calibratedRender halfCalibrated)
     ''mouthPressLeft'' = Some NaN \<and>
   storedProfile calibratedRender (storeCalibrations calibratedRender halfCalibrated)
     ''mouthSmileLeft'' = Some (Val (1 / 2))"
proof -
  have d: "distinct (map fst (calibrationBlendValues halfCalibrated))"
    by (simp add: halfCalibrated_def)
  have p: "(''mouthPressLeft'', []) \<in> set (calibrationBlendValues halfCalibrated)"
    by (simp add: halfCalibrated_def)
  have s: "(''mouthSmileLeft'', [Val (1 / 4), Val (3 / 4)])
             \<in> set (calibrationBlendValues halfCalibrated)"
    by (simp add: halfCalibrated_def)
  have "storedProfile calibratedRender (storeCalibrations calibratedRender halfCalibrated)
      ''mouthPressLeft'' = Some NaN"
    using storeCalibrations_mean [OF d p, of calibratedRender] by simp
  moreover have "storedProfile calibratedRender
      (storeCalibrations calibratedRender halfCalibrated) ''mouthSmileLeft''
      = Some (Val (1 / 2))"
    using storeCalibrations_mean [OF d s, of calibratedRender "[1 / 4, 3 / 4]"] by simp
  ultimately show ?thesis by simp
qed

text \<open>
  C3 as stated fails: a hook that is mounted and finalizes its calibration at once, with
  no sample collected, stores NaN for \<open>mouthSmileLeft\<close>, not zero.
\<close>

theorem storeCalibrations_empty_counterexample:
  "storedProfile (cells (mount None True Map.empty Map.empty Map.empty NEUTRAL))
     (storeCalibrations (cells (mount None True Map.empty Map.empty Map.empty NEUTRAL))
        (mount None True Map.empty Map.empty Map.empty NEUTRAL)) ''mouthSmileLeft''
     = Some NaN \<and>
   storedProfile (cells (mount None True Map.empty Map.empty Map.empty NEUTRAL))
     (storeCalibrations (cells (mount None True Map.empty Map.empty Map.empty NEUTRAL))
        (mount None True Map.empty Map.empty Map.empty NEUTRAL)) ''mouthSmileLeft''
     \<noteq> Some (Val 0)"
  by (simp add: storedProfile_def mount_def initialRender_def hook_defs
      initialDuringCalibrationBlendValues_def average_def)

section \<open>The result of a prediction\<close>

text \<open>
  C4, as the code has it. With the detector and a video present, \<open>stopPrediction\<close>
  returns the arithmetic mean of the smile-degree samples when there is at least one, and
  NaN when there is none; \<open>startPrediction\<close> empties the samples.
\<close>

theorem stopPrediction_mean:
  assumes "faceLandmarker r \<noteq> None" and "video r \<noteq> None"
  shows "(smileDegrees st = [] \<longrightarrow> fst (stopPrediction r st) = Some NaN) \<and>
         (smileDegrees st = map Val qs \<and> qs \<noteq> [] \<longrightarrow>
            fst (stopPrediction r st) = Some (Val (sum_list qs / real (length qs)))) \<and>
         smileDegrees (startPrediction st) = []"
  using assms
  by (auto simp: hook_defs average_Nil average_Val)

theorem stopPrediction_mean_witness:
  "fst (stopPrediction calibratedRender
          (calibrated\<lparr>smileDegrees := [Val 0, Val 1, Val (1 / 2)]\<rparr>))
     = Some (Val (1 / 2)) \<and>
   fst (stopPrediction calibratedRender (startPrediction calibrated)) = Some NaN"
  using stopPrediction_mean [of calibratedRender
      "calibrated\<lparr>smileDegrees := [Val 0, Val 1, Val (1 / 2)]\<rparr>" "[0, 1, 1 / 2]"]
    stopPrediction_mean [of calibratedRender "startPrediction calibrated"]
  by (simp add: calibratedRender_def startPrediction_def console_log_def
      setPredictionStatus_def)

text \<open>
  C4 as stated fails: stopping a prediction that has just been started, with no sample
  collected, returns NaN, not 0.
\<close>

theorem stopPrediction_empty_counterexample:
  "fst (stopPrediction (cells (startPrediction calibrated)) (startPrediction calibrated))
     = Some NaN \<and>
   fst (stopPrediction (cells (startPrediction calibrated)) (startPrediction calibrated))
     \<noteq> Some (Val 0)"
  by (simp add: example_defs hook_defs average_def)

section \<open>Starting a calibration\<close>

text \<open>
  C9. Without a video, \<open>startCalibration\<close> does nothing but write two lines to the
  console, the second being the diagnostic; the status, the sample buffers, the timeouts
  and everything else stay as they are. The function has no failing branch.
\<close>

theorem startCalibration_without_video:
  assumes "video r = None"
  shows "startCalibration r st =
           st\<lparr>console := console st @ [''startCalibration'', ''Wait! video not loaded yet.'']\<rparr>"
  using assms by (simp add: startCalibration_def console_log_def Let_def)

theorem startCalibration_without_video_witness:
  "startCalibration (cells mounted) mounted =
     mounted\<lparr>console := [''startCalibration'', ''Wait! video not loaded yet.'']\<rparr>"
  using startCalibration_without_video [of "cells mounted" mounted]
  by (simp add: mounted_def mount_def initialRender_def)

text \<open>
  C6, as the code has it. The status is NOT_READY at mount and READY once the video
  effect has run with the webcam capability. With a video attached, \<open>startCalibration\<close>
  does the same whatever the status, DOING included: it empties the sample buffers, resets
  the frame count, sets the status DOING and schedules \<open>stopCalibration\<close> after
  2000 ms; \<open>stopCalibration\<close> sets the status DONE.
\<close>

theorem startCalibration_restarts:
  assumes "video r = Some v"
  shows "calibrationStatus (cells (mount service devices initial baseline smile mode))
           = NOT_READY \<and>
         (mediaDevices st \<longrightarrow> calibrationStatus (cells (videoEffect r st)) = READY) \<and>
         calibrationStatus (cells (startCalibration r st)) = DOING \<and>
         calibrationBlendValues (startCalibration r st) = initialDuringCalibrationBlendValues \<and>
         calibrationFrames (cells (startCalibration r st)) = 0 \<and>
         timeouts (startCalibration r st) = timeouts st @ [(2000, StopCalibration, r)] \<and>
         calibrationStatus (cells (invoke StopCalibration r (startCalibration r st))) = DONE"
  using assms
  by (simp add: mount_def initialRender_def hook_defs)

theorem startCalibration_restarts_witness:
  "calibrationStatus (cells (videoEffect (cells (setVideoNode 0 mounted))
      (setVideoNode 0 mounted))) = READY \<and>
   calibrationStatus (cells (startCalibration (cells sampling) sampling)) = DOING \<and>
   calibrationBlendValues (startCalibration (cells sampling) sampling)
     = initialDuringCalibrationBlendValues \<and>
   timeouts (startCalibration (cells sampling) sampling)
     = timeouts sampling @ [(2000, StopCalibration, cells sampling)]"
proof -
  have v: "video (cells (setVideoNode 0 mounted)) = Some 0"
    by (simp add: setVideoNode_def setVideo_def)
  have m: "mediaDevices (setVideoNode 0 mounted)"
    by (simp add: setVideoNode_def setVideo_def mounted_def mount_def)
  have s: "video (cells sampling) = Some 0"
    by (simp add: sampling_def example_defs hook_defs)
  show ?thesis
    using startCalibration_restarts [OF v] m startCalibration_restarts [OF s] by simp
qed

text \<open>
  C6 as stated fails: in a calibration under way (status DOING, one sample per smile
  category, one timeout pending), \<open>startCalibration\<close> empties the buffers and adds a
  second timeout.
\<close>

theorem startCalibration_while_DOING_counterexample:
  "calibrationStatus (cells sampling) = DOING \<and>
   calibrationBlendValues sampling =
     [(''mouthPressLeft'', []), (''mouthPressRight'', []),
      (''mouthSmileLeft'', [Val (1 / 2)]), (''mouthSmileRight'', [Val (1 / 2)])] \<and>
   pending (timeouts sampling) = [(2000, StopCalibration)] \<and>
   calibrationBlendValues (startCalibration (cells sampling) sampling) =
     [(''mouthPressLeft'', []), (''mouthPressRight'', []),
      (''mouthSmileLeft'', []), (''mouthSmileRight'', [])] \<and>
   pending (timeouts (startCalibration (cells sampling) sampling))
     = [(2000, StopCalibration), (2000, StopCalibration)]"
  by (simp add: sampling_def example_defs hook_defs addSample_def pending_def
      initialDuringCalibrationBlendValues_def)

section \<open>The smile degree of a frame\<close>

lemma addBlendFactor_at:
  "addBlendFactor r blendFactors c blendName =
     (if categoryName c = blendName then factorAfter r blendName (blendFactors blendName) (score c)
      else blendFactors blendName)"
  by (cases "blendFactors (categoryName c)")
     (auto simp: addBlendFactor_def Let_def split: option.splits)

lemma blendFactor_of_scores:
  "foldl (addBlendFactor r) blendFactors cats blendName =
     foldl (factorAfter r blendName) (blendFactors blendName) (scoresOf blendName cats)"
  by (induction cats arbitrary: blendFactors) (simp_all add: scoresOf_def addBlendFactor_at)

text \<open>
  C10. Two frames that give the same scores to \<open>mouthSmileLeft\<close> and to
  \<open>mouthSmileRight\<close> leave the hook in the same state, appended sample included,
  whatever their other categories are; the two smile blend factors and the smile degree
  computed from them are the same as well.
\<close>

theorem press_scores_do_not_matter:
  assumes "scoresOf ''mouthSmileLeft'' cats1 = scoresOf ''mouthSmileLeft'' cats2"
    and "scoresOf ''mouthSmileRight'' cats1 = scoresOf ''mouthSmileRight'' cats2"
  shows "updateBlendValues r (\<lparr>categories = cats1\<rparr> # rest1) st
           = updateBlendValues r (\<lparr>categories = cats2\<rparr> # rest2) st \<and>
         blendFactorsOf r cats1 ''mouthSmileLeft'' = blendFactorsOf r cats2 ''mouthSmileLeft'' \<and>
         blendFactorsOf r cats1 ''mouthSmileRight'' = blendFactorsOf r cats2 ''mouthSmileRight'' \<and>
         spec_smileDegree r cats1 = spec_smileDegree r cats2"
proof -
  have l: "blendFactorsOf r cats1 ''mouthSmileLeft'' = blendFactorsOf r cats2 ''mouthSmileLeft''"
    using assms(1) by (simp add: blendFactorsOf_def blendFactor_of_scores)
  have r: "blendFactorsOf r cats1 ''mouthSmileRight'' = blendFactorsOf r cats2 ''mouthSmileRight''"
    using assms(2) by (simp add: blendFactorsOf_def blendFactor_of_scores)
  have u: "updateBlendValues r (\<lparr>categories = cats1\<rparr> # rest1) st
             = updateBlendValues r (\<lparr>categories = cats2\<rparr> # rest2) st"
    by (simp add: updateBlendValues_def calculateMood_def Let_def)
  from l r have "spec_smileDegree r cats1 = spec_smileDegree r cats2"
    by (simp add: spec_smileDegree_def property_def)
  with l r u show ?thesis by simp
qed

theorem press_scores_do_not_matter_witness:
  "updateBlendValues calibratedRender [\<lparr>categories = smilingFrame\<rparr>] calibrated
     = updateBlendValues calibratedRender [\<lparr>categories = pressingFrame\<rparr>] calibrated \<and>
   spec_smileDegree calibratedRender smilingFrame
     = spec_smileDegree calibratedRender pressingFrame"
proof -
  have l: "scoresOf ''mouthSmileLeft'' smilingFrame = scoresOf ''mouthSmileLeft'' pressingFrame"
    by (simp add: scoresOf_def smilingFrame_def pressingFrame_def)
  have r: "scoresOf ''mouthSmileRight'' smilingFrame = scoresOf ''mouthSmileRight'' pressingFrame"
    by (simp add: scoresOf_def smilingFrame_def pressingFrame_def)
  from press_scores_do_not_matter [OF l r, of calibratedRender "[]" calibrated "[]"]
  show ?thesis by simp
qed

section \<open>Repeated frames\<close>

lemma invoke_seen:
  assumes "faceLandmarkerService st = None \<or> video r = None \<or>
           (\<exists>v. video r = Some v \<and> lastVideoTime st = currentTime (document st v))"
  shows "detectForVideoCalls (invoke cb r st) = detectForVideoCalls st \<and>
         lastVideoTime (invoke cb r st) = lastVideoTime st \<and>
         calibrationBlendValues (invoke cb r st) = calibrationBlendValues st \<and>
         smileDegrees (invoke cb r st) = smileDegrees st"
  using assms
  by (cases cb) (auto simp: hook_defs split: option.splits prod.splits list.splits)

lemma invoke_detects:
  "(detectForVideoCalls (invoke cb r st) = detectForVideoCalls st \<and>
    lastVideoTime (invoke cb r st) = lastVideoTime st) \<or>
   (\<exists>v. video r = Some v \<and> lastVideoTime (invoke cb r st) = currentTime (document st v) \<and>
        detectForVideoCalls (invoke cb r st) = detectForVideoCalls st + 1)"
  by (cases cb) (auto simp: hook_defs split: option.splits prod.splits list.splits)

lemma invoke_then_seen:
  assumes "cb \<noteq> StopCalibration" and "video r = Some v"
  shows "faceLandmarkerService (invoke cb r st) = None \<or>
         lastVideoTime (invoke cb r st) = currentTime (document st v)"
  using assms
  by (cases cb) (auto simp: hook_defs split: option.splits prod.splits list.splits)

lemma invoke_document: "document (invoke cb r st) = document st"
  by (cases cb) (auto simp: hook_defs split: option.splits prod.splits list.splits)

lemma ticks_seen:
  assumes "\<forall>tk \<in> set tks. \<forall>v. video (snd tk) = Some v \<longrightarrow> currentTime (document st v) = t"
    and "lastVideoTime st = t"
  shows "detectForVideoCalls (ticks st tks) = detectForVideoCalls st"
  using assms
proof (induction tks arbitrary: st)
  case Nil
  then show ?case by simp
next
  case (Cons tk tks)
  obtain cb r where tk: "tk = (cb, r)" by (cases tk)
  from Cons.prems tk have seen: "faceLandmarkerService st = None \<or> video r = None \<or>
      (\<exists>v. video r = Some v \<and> lastVideoTime st = currentTime (document st v))"
    by (cases "video r") auto
  from invoke_seen [OF seen, of cb]
  have same: "detectForVideoCalls (invoke cb r st) = detectForVideoCalls st"
    and time: "lastVideoTime (invoke cb r st) = t"
    using Cons.prems by simp_all
  from Cons.prems
  have rest: "\<forall>tk \<in> set tks. \<forall>v. video (snd tk) = Some v \<longrightarrow>
                currentTime (document (invoke cb r st) v) = t"
    by (simp add: invoke_document)
  from Cons.IH [OF rest time] same tk show ?case by simp
qed

lemma ticks_once:
  assumes "\<forall>tk \<in> set tks. \<forall>v. video (snd tk) = Some v \<longrightarrow> currentTime (document st v) = t"
  shows "detectForVideoCalls (ticks st tks) \<le> detectForVideoCalls st + 1"
  using assms
proof (induction tks arbitrary: st)
  case Nil
  then show ?case by simp
next
  case (Cons tk tks)
  obtain cb r where tk: "tk = (cb, r)" by (cases tk)
  from Cons.prems
  have rest: "\<forall>tk \<in> set tks. \<forall>v. video (snd tk) = Some v \<longrightarrow>
                currentTime (document (invoke cb r st) v) = t"
    by (simp add: invoke_document)
  from invoke_detects [of cb r st]
  show ?case
  proof
    assume "detectForVideoCalls (invoke cb r st) = detectForVideoCalls st \<and>
            lastVideoTime (invoke cb r st) = lastVideoTime st"
    with Cons.IH [OF rest] tk show ?thesis by simp
  next
    assume "\<exists>v. video r = Some v \<and>
              lastVideoTime (invoke cb r st) = currentTime (document st v) \<and>
              detectForVideoCalls (invoke cb r st) = detectForVideoCalls st + 1"
    then obtain v where v: "video r = Some v"
      "lastVideoTime (invoke cb r st) = currentTime (document st v)"
      "detectForVideoCalls (invoke cb r st) = detectForVideoCalls st + 1"
      by auto
    from Cons.prems tk v have "currentTime (document st v) = t" by simp
    with v have "lastVideoTime (invoke cb r st) = t" by simp
    from ticks_seen [OF rest this] v tk show ?thesis by simp
  qed
qed

lemma second_call_skips:
  assumes "cb1 \<noteq> StopCalibration" and "video r1 = Some v1" and "video r2 = Some v2"
    and "currentTime (document st v2) = currentTime (document st v1)"
  shows "detectForVideoCalls (ticks st [(cb1, r1), (cb2, r2)])
           = detectForVideoCalls (ticks st [(cb1, r1)]) \<and>
         calibrationBlendValues (ticks st [(cb1, r1), (cb2, r2)])
           = calibrationBlendValues (ticks st [(cb1, r1)]) \<and>
         smileDegrees (ticks st [(cb1, r1), (cb2, r2)])
           = smileDegrees (ticks st [(cb1, r1)])"
proof -
  let ?st = "invoke cb1 r1 st"
  from invoke_then_seen [OF assms(1,2), of st] assms(3,4)
  have "faceLandmarkerService ?st = None \<or> video r2 = None \<or>
        (\<exists>v. video r2 = Some v \<and> lastVideoTime ?st = currentTime (document ?st v))"
    by (auto simp: invoke_document)
  from invoke_seen [OF this, of cb2] show ?thesis by simp
qed

text \<open>
  C7. Over any sequence of scheduler ticks during which the videos show the same time,
  the detector is called at most once. Of two consecutive detection calls that see the
  same time, the second one does not call the detector and adds no sample, neither to the
  calibration buffers nor to the smile degrees.
\<close>

theorem same_frame_detected_once:
  assumes "\<forall>tk \<in> set tks. \<forall>v. video (snd tk) = Some v \<longrightarrow> currentTime (document st v) = t"
  shows "detectForVideoCalls (ticks st tks) \<le> detectForVideoCalls st + 1 \<and>
         (cb1 \<noteq> StopCalibration \<and> video r1 = Some v1 \<and> video r2 = Some v2 \<and>
          currentTime (document st v2) = currentTime (document st v1) \<longrightarrow>
            detectForVideoCalls (ticks st [(cb1, r1), (cb2, r2)])
              = detectForVideoCalls (ticks st [(cb1, r1)]) \<and>
            calibrationBlendValues (ticks st [(cb1, r1), (cb2, r2)])
              = calibrationBlendValues (ticks st [(cb1, r1)]) \<and>
            smileDegrees (ticks st [(cb1, r1), (cb2, r2)])
              = smileDegrees (ticks st [(cb1, r1)]))"
  using ticks_once [OF assms] second_call_skips by blast

theorem same_frame_detected_once_witness:
  "detectForVideoCalls
     (ticks calibrated
        [(DoCalibration, calibratedRender\<lparr>calibrationStatus := DOING\<rparr>),
         (DoCalibration, calibratedRender\<lparr>video := Some 1\<rparr>),
         (PredictWebcam, firstRender calibrated)]) \<le> 1 \<and>
   calibrationBlendValues
     (ticks calibrated
        [(DoCalibration, calibratedRender\<lparr>calibrationStatus := DOING\<rparr>),
         (DoCalibration, calibratedRender\<lparr>video := Some 1\<rparr>)])
     = calibrationBlendValues
         (ticks calibrated [(DoCalibration, calibratedRender\<lparr>calibrationStatus := DOING\<rparr>)])"
proof -
  have d: "document calibrated = (\<lambda>v. \<lparr>currentTime = 0, image = 0\<rparr>)"
    by (simp add: calibrated_def mount_def)
  have c: "detectForVideoCalls calibrated = 0"
    by (simp add: calibrated_def mount_def)
  have h: "\<forall>tk \<in> set [(DoCalibration, calibratedRender\<lparr>calibrationStatus := DOING\<rparr>),
                      (DoCalibration, calibratedRender\<lparr>video := Some 1\<rparr>),
                      (PredictWebcam, firstRender calibrated)].
             \<forall>v. video (snd tk) = Some v \<longrightarrow> currentTime (document calibrated v) = 0"
    by (simp add: d)
  have v: "video (calibratedRender\<lparr>calibrationStatus := DOING\<rparr>) = Some 0"
    by (simp add: calibratedRender_def)
  from same_frame_detected_once [OF h, of DoCalibration
      "calibratedRender\<lparr>calibrationStatus := DOING\<rparr>" 0
      "calibratedRender\<lparr>video := Some 1\<rparr>" 1 DoCalibration] v d c
  show ?thesis by simp
qed

section \<open>The prediction never gets to a frame\<close>

lemma invoke_neverPredicts:
  assumes "neverPredicts st" and "withoutVideo (n, cb, r)"
  shows "neverPredicts (invoke cb r st)"
  using assms
  by (cases cb)
     (auto simp: neverPredicts_def hook_defs split: option.splits prod.splits list.splits)

lemma runScheduled_neverPredicts:
  assumes "neverPredicts st" and "withoutVideo scheduled"
  shows "neverPredicts (runScheduled st scheduled)"
proof -
  obtain n cb r where "scheduled = (n, cb, r)" by (cases scheduled)
  with assms invoke_neverPredicts [of st n cb r] show ?thesis by simp
qed

lemma foldl_runScheduled_neverPredicts:
  "neverPredicts st \<Longrightarrow> list_all withoutVideo scheduled \<Longrightarrow>
   neverPredicts (foldl runScheduled st scheduled)"
  by (induction scheduled arbitrary: st) (simp_all add: runScheduled_neverPredicts)

lemma animationFrame_neverPredicts:
  assumes "neverPredicts st"
  shows "neverPredicts (animationFrame st)"
proof -
  from assms have "neverPredicts (st\<lparr>animationFrames := []\<rparr>)"
    and "list_all withoutVideo (animationFrames st)"
    by (simp_all add: neverPredicts_def)
  then show ?thesis
    unfolding animationFrame_def by (rule foldl_runScheduled_neverPredicts)
qed

lemma timeout_neverPredicts:
  assumes "neverPredicts st"
  shows "neverPredicts (timeout st)"
proof (cases "timeouts st")
  case Nil
  with assms show ?thesis by (simp add: timeout_def)
next
  case (Cons scheduled rest)
  obtain n cb r where s: "scheduled = (n, cb, r)" by (cases scheduled)
  from assms Cons s have "cb = StopCalibration" and "neverPredicts (st\<lparr>timeouts := rest\<rparr>)"
    by (simp_all add: neverPredicts_def)
  with invoke_neverPredicts [of "st\<lparr>timeouts := rest\<rparr>" n cb r] Cons s
  show ?thesis by (simp add: timeout_def)
qed

lemma filter_withoutVideo:
  "list_all withoutVideo scheduled \<Longrightarrow> list_all withoutVideo (filter P scheduled)"
  by (induction scheduled) simp_all

lemma step_neverPredicts:
  assumes "neverPredicts st"
  shows "neverPredicts (step st e)"
proof (cases e)
  case AnimationFrame
  with assms show ?thesis by (simp add: animationFrame_neverPredicts)
next
  case Timeout
  with assms show ?thesis by (simp add: timeout_neverPredicts)
next
  case Call_stopCalibration
  with assms invoke_neverPredicts [of st 0 StopCalibration "cells st"] show ?thesis by simp
next
  case Effect_cleanup
  with assms show ?thesis
    by (auto simp: neverPredicts_def cleanup_def cancelRef_def cancelAnimationFrame_def
        Let_def filter_withoutVideo split: option.splits)
qed (use assms in \<open>auto simp: neverPredicts_def hook_defs split: option.splits\<close>)

lemma run_neverPredicts: "neverPredicts st \<Longrightarrow> neverPredicts (run st events)"
  unfolding run_def by (induction events arbitrary: st) (simp_all add: step_neverPredicts)

lemma mount_neverPredicts:
  "neverPredicts (mount service devices initial baseline smile mode)"
  by (simp add: neverPredicts_def mount_def initialRender_def)

lemma clamp_inUnitInterval:
  "x \<noteq> NaN \<Longrightarrow> inUnitInterval (Math_min (Val 1) (Math_max (Val 0) x))"
  by (cases x) (simp_all add: inUnitInterval_def)

text \<open>
  C2 on the code. A video is attached, the prediction is started and an animation frame
  passes while the detector would report both smile scores at one half, for which the
  smile degree is \<open>clamp01(2 / 200)\<close>, one hundredth. The hook appends no sample:
  \<open>predictWebcam\<close> is the function of the first render, whose video is null, so it logs
  its name and returns on line 232 without calling the detector; it does not schedule
  itself either.
\<close>

theorem prediction_appends_nothing:
  "predictionStatus (cells predicting) = DOING \<and>
   video (cells predicting) = Some 0 \<and>
   faceLandmarkerService predicting = Some smilingFace \<and>
   faceBlendshapes (smilingFace (document predicting 0)) = [\<lparr>categories = smilingFrame\<rparr>] \<and>
   spec_smileDegree (cells predicting) smilingFrame = Val (1 / 100) \<and>
   console predicting = [''startPrediction'', ''predictWebcam''] \<and>
   detectForVideoCalls predicting = 0 \<and>
   smileDegrees predicting = [] \<and>
   animationFrames predicting = []"
  by (simp add: predicting_def example_defs hook_defs spec_smileDegree_def blendFactorsOf_def
      neutralProfile_def smileProfile_def initialBlendFactors_def addBlendFactor_def
      property_def js_sub_def)



text \<open>
  C8. Whatever happens to a mounted hook, with any detector results and any calibration
  profiles, every smile-degree sample it has collected is a number from 0 to 1, and so is
  the smile degree that the functions of its renders capture. Called with any frame,
  whatever its scores, \<open>updateBlendValues\<close> returns and appends one sample, the smile
  degree of its render clamped to the interval from 0 to 1, provided that smile degree is
  not NaN.
\<close>

theorem smileDegree_samples_clamped:
  "(\<forall>x \<in> set (smileDegrees (run (mount service devices initial baseline smile mode) events)).
      inUnitInterval x) \<and>
   inUnitInterval
     (smileDegree (cells (run (mount service devices initial baseline smile mode) events))) \<and>
   (smileDegree r \<noteq> NaN \<longrightarrow>
      map_sum id smileDegrees (updateBlendValues r (first # rest) st)
        = Inr (smileDegrees st @ [Math_min (Val 1) (Math_max (Val 0) (smileDegree r))]) \<and>
      inUnitInterval (Math_min (Val 1) (Math_max (Val 0) (smileDegree r))))"
proof -
  have "neverPredicts (run (mount service devices initial baseline smile mode) events)"
    by (rule run_neverPredicts [OF mount_neverPredicts])
  then show ?thesis
    by (auto simp: neverPredicts_def inUnitInterval_def [of "Val 0"] clamp_inUnitInterval
        hook_defs)
qed

theorem smileDegree_samples_clamped_witness:
  "map_sum id smileDegrees
     (updateBlendValues calibratedRender [\<lparr>categories = malformedFrame\<rparr>] calibrated)
     = Inr [Val 0] \<and>
   map_sum id smileDegrees
     (updateBlendValues (calibratedRender\<lparr>smileDegree := Val 7\<rparr>)
        [\<lparr>categories = malformedFrame\<rparr>] calibrated)
     = Inr [Val 1] \<and>
   map_sum id smileDegrees
     (updateBlendValues (calibratedRender\<lparr>smileDegree := NegInfinity\<rparr>)
        [\<lparr>categories = malformedFrame\<rparr>] calibrated)
     = Inr [Val 0] \<and>
   inUnitInterval (Val 0) \<and> inUnitInterval (Val 1) \<and>
   smileDegrees predicting = []"
proof -
  have s: "smileDegrees calibrated = []"
    by (simp add: calibrated_def mount_def)
  have p: "smileDegrees predicting = []"
    by (simp add: predicting_def example_defs hook_defs)
  from smileDegree_samples_clamped [of "Some smilingFace" True neutralProfile
      neutralProfile smileProfile NEUTRAL "[]" calibratedRender
      "\<lparr>categories = malformedFrame\<rparr>" "[]" calibrated]
    smileDegree_samples_clamped [of "Some smilingFace" True neutralProfile
      neutralProfile smileProfile NEUTRAL "[]" "calibratedRender\<lparr>smileDegree := Val 7\<rparr>"
      "\<lparr>categories = malformedFrame\<rparr>" "[]" calibrated]
    smileDegree_samples_clamped [of "Some smilingFace" True neutralProfile
      neutralProfile smileProfile NEUTRAL "[]"
      "calibratedRender\<lparr>smileDegree := NegInfinity\<rparr>"
      "\<lparr>categories = malformedFrame\<rparr>" "[]" calibrated] s p
  show ?thesis by (simp add: calibratedRender_def)
qed

section \<open>The sampling loops\<close>

text \<open>
  C5 on the code. A calibration is under way and its \<open>doCalibration\<close> is pending when
  \<open>stopPrediction\<close> sets the calibration status to DONE. At the next animation frame
  that \<open>doCalibration\<close>, which tests the status of the render that created it, calls the
  detector and schedules itself again (handle 2, stored in the ref), the status being
  DONE before and after.
\<close>

theorem doCalibration_outlives_DOING:
  "calibrationStatus (cells stoppedWhileSampling) = DONE \<and>
   pending (animationFrames stoppedWhileSampling) = [(1, DoCalibration)] \<and>
   calibrationStatus (cells (step stoppedWhileSampling AnimationFrame)) = DONE \<and>
   detectForVideoCalls (step stoppedWhileSampling AnimationFrame) = 1 \<and>
   pending (animationFrames (step stoppedWhileSampling AnimationFrame))
     = [(2, DoCalibration)] \<and>
   calibrateRequestRef (step stoppedWhileSampling AnimationFrame) = Some 2"
  by (simp add: stoppedWhileSampling_def example_defs hook_defs addSample_def pending_def
      initialDuringCalibrationBlendValues_def)

end
